theory Spec2Isabelle
  imports Complex_Main "HOL-Library.Multiset" "HOL-Library.AList"
begin

section \<open>Account indicator (AccountIndicator.jsx)\<close>

text \<open>
  The component receives one account and derives its display attributes from the numeric
  balance. A JavaScript number is an IEEE-754 binary64 value; a finite one is modelled by
  the \<^typ>\<open>real\<close> it denotes. Comparison, minimum and maximum of finite doubles are exact.
  Division and multiplication return the exact result rounded to the nearest double, ties
  to the even significand. The values NaN and the infinities are outside the model.
\<close>

definition getBalanceColor :: "real \<Rightarrow> string" where
  "getBalanceColor balance =
     (if balance > 1000 then ''success.main''
      else if balance > 0 then ''warning.main''
      else ''error.main'')"

text \<open>
  Rounding to binary64. A double is an integer multiple of its quantum \<open>2 powi k\<close>, with at
  most 53 significant bits and \<open>- 1074 \<le> k \<le> 971\<close>. \<open>quantum x\<close> is the exponent \<open>k\<close> with
  \<open>2 powi (k + 52) \<le> \<bar>x\<bar> < 2 powi (k + 53)\<close>, held at \<open>- 1074\<close> in the subnormal range; it is
  found by stepping up or down from 0. \<open>roundDouble x\<close> is the multiple of the quantum
  nearest to \<open>x\<close>. A result of magnitude \<open>2 powi 1024\<close> or more would be an infinity; the
  quotient by 5000 of a finite double and its product with 100 stay below that.
\<close>

function quantumUp :: "real \<Rightarrow> int \<Rightarrow> int" where
  "quantumUp x k = (if k < 971 \<and> 2 powi (k + 53) \<le> \<bar>x\<bar> then quantumUp x (k + 1) else k)"
  by pat_completeness auto
termination
  by (relation "measure (\<lambda>(x, k). nat (971 - k))") auto

function quantumDown :: "real \<Rightarrow> int \<Rightarrow> int" where
  "quantumDown x k = (if - 1074 < k \<and> \<bar>x\<bar> < 2 powi (k + 52) then quantumDown x (k - 1) else k)"
  by pat_completeness auto
termination
  by (relation "measure (\<lambda>(x, k). nat (k + 1074))") auto

declare quantumUp.simps [simp del] quantumDown.simps [simp del]

definition quantum :: "real \<Rightarrow> int" where
  "quantum x = (if 2 powi 53 \<le> \<bar>x\<bar> then quantumUp x 0 else quantumDown x 0)"

definition roundTiesToEven :: "real \<Rightarrow> int" where
  "roundTiesToEven y =
     (let n = \<lfloor>y\<rfloor>; r = y - of_int n
      in if r < 1 / 2 then n else if 1 / 2 < r then n + 1 else if even n then n else n + 1)"

definition roundDouble :: "real \<Rightarrow> real" where
  "roundDouble x = of_int (roundTiesToEven (x / 2 powi quantum x)) * 2 powi quantum x"

definition getProgressValue :: "real \<Rightarrow> real" where
  "getProgressValue balance =
     (let maxValue = 5000;
          normalizedValue =
            max 0 (min 100 (roundDouble (roundDouble (balance / maxValue) * 100)))
      in normalizedValue)"

text \<open>
  The specification's \<open>clamp(x, lo, hi)\<close>, written from its words: a value below the
  lower bound becomes the lower bound, a value above the upper bound becomes the upper
  bound, and any other value is kept.
\<close>

definition clamp :: "real \<Rightarrow> real \<Rightarrow> real \<Rightarrow> real" where
  "clamp x lo hi = (if x < lo then lo else if x > hi then hi else x)"

section \<open>The host: dates, number printing, sorting\<close>

text \<open>
  The components call the JavaScript host for three things: the \<open>Date\<close> constructor on a
  string, the rendering of a valid time value (\<open>format\<close> of date-fns with the pattern
  \<open>MMMM yyyy\<close> and the locale ptBR, and \<open>toLocaleDateString('pt-BR')\<close>), and
  \<open>Array.prototype.sort\<close>. A time value is the number of milliseconds since the epoch;
  \<open>None\<close> stands for the time value NaN of an invalid date.

  What the \<open>Date\<close> constructor accepts beyond the ECMAScript date-time string format depends
  on the engine, and the rendering depends on the viewer's time zone. The repository's
  functions therefore take the host as a parameter, and the general properties below hold
  for every host.
\<close>

record host =
  newDate :: "string \<Rightarrow> int option"
  monthYear :: "int \<Rightarrow> string"
  localeDate :: "int \<Rightarrow> string"

datatype error = RangeError

text \<open>
  \<open>format(date, 'MMMM yyyy', { locale: ptBR })\<close>: date-fns throws a \<open>RangeError\<close> on an
  invalid date and renders a valid one in local time.
\<close>

definition format_MMMM_yyyy :: "host \<Rightarrow> int option \<Rightarrow> error + string" where
  "format_MMMM_yyyy h d = (case d of None \<Rightarrow> Inl RangeError | Some t \<Rightarrow> Inr (monthYear h t))"


subsection \<open>A concrete host: ISO strings in a zone at a fixed offset\<close>

text \<open>
  For the concrete scenarios the host is instantiated: \<open>isoHost tz\<close> is a viewer whose
  local time is \<open>tz\<close> minutes east of UTC. Its \<open>Date\<close> constructor reads the forms
  \<open>YYYY-MM-DD\<close>, \<open>YYYY-MM-DDTHH:mm:ss\<close> and \<open>YYYY-MM-DDTHH:mm:ssZ\<close> of the ECMAScript
  date-time string format: a date-only form is a UTC time, a date-time form without
  \<open>Z\<close> is a local time. Every other string is an invalid date in this host. Days are
  counted in the proleptic Gregorian calendar.
\<close>

definition msPerDay :: int where "msPerDay = 86400000"

definition digit_val :: "char \<Rightarrow> int option" where
  "digit_val c =
     (let n = of_char c :: int in if 48 \<le> n \<and> n \<le> 57 then Some (n - 48) else None)"

fun digits_val :: "string \<Rightarrow> int option" where
  "digits_val [] = None"
| "digits_val [c] = digit_val c"
| "digits_val cs =
     (case (digits_val (butlast cs), digit_val (last cs)) of
        (Some a, Some d) \<Rightarrow> Some (10 * a + d)
      | _ \<Rightarrow> None)"

function string_of_nat :: "nat \<Rightarrow> string" where
  "string_of_nat n =
     (if n < 10 then [''0123456789'' ! n]
      else string_of_nat (n div 10) @ [''0123456789'' ! (n mod 10)])"
  by pat_completeness auto
termination
  by (relation "measure (\<lambda>n. n)") auto

declare string_of_nat.simps [simp del]

definition addLeadingZeros :: "nat \<Rightarrow> nat \<Rightarrow> string" where
  "addLeadingZeros n targetLength =
     (let s = string_of_nat n in replicate (targetLength - length s) CHR ''0'' @ s)"

definition isLeap :: "int \<Rightarrow> bool" where
  "isLeap y = (if y mod 400 = 0 then True else if y mod 100 = 0 then False else y mod 4 = 0)"

definition daysInMonth :: "int \<Rightarrow> int \<Rightarrow> int" where
  "daysInMonth y m =
     (if m = 2 then (if isLeap y then 29 else 28)
      else if m = 4 \<or> m = 6 \<or> m = 9 \<or> m = 11 then 30 else 31)"

definition days_from_civil :: "int \<Rightarrow> int \<Rightarrow> int \<Rightarrow> int" where
  "days_from_civil y m d =
     (let y' = (if m \<le> 2 then y - 1 else y);
          era = y' div 400;
          yoe = y' mod 400;
          mp = (m + 9) mod 12;
          doy = (153 * mp + 2) div 5 + d - 1;
          doe = yoe * 365 + yoe div 4 - yoe div 100 + doy
      in era * 146097 + doe - 719468)"

definition civil_from_days :: "int \<Rightarrow> int \<times> int \<times> int" where
  "civil_from_days z =
     (let z' = z + 719468;
          era = z' div 146097;
          doe = z' mod 146097;
          yoe = (doe - doe div 1460 + doe div 36524 - doe div 146096) div 365;
          doy = doe - (365 * yoe + yoe div 4 - yoe div 100);
          mp = (5 * doy + 2) div 153;
          d = doy - (153 * mp + 2) div 5 + 1;
          m = (if mp < 10 then mp + 3 else mp - 9);
          y = yoe + era * 400
      in (if m \<le> 2 then y + 1 else y, m, d))"

definition parseDatePart :: "string \<Rightarrow> int option" where
  "parseDatePart s =
     (if length s = 10 \<and> s ! 4 = CHR ''-'' \<and> s ! 7 = CHR ''-'' then
        (case (digits_val (take 4 s), digits_val (take 2 (drop 5 s)), digits_val (drop 8 s)) of
           (Some y, Some m, Some d) \<Rightarrow>
             if 1 \<le> m \<and> m \<le> 12 \<and> 1 \<le> d \<and> d \<le> daysInMonth y m
             then Some (days_from_civil y m d) else None
         | _ \<Rightarrow> None)
      else None)"

definition parseTimePart :: "string \<Rightarrow> int option" where
  "parseTimePart s =
     (if length s = 8 \<and> s ! 2 = CHR '':'' \<and> s ! 5 = CHR '':'' then
        (case (digits_val (take 2 s), digits_val (take 2 (drop 3 s)), digits_val (drop 6 s)) of
           (Some h, Some mi, Some sec) \<Rightarrow>
             if h \<le> 23 \<and> mi \<le> 59 \<and> sec \<le> 59
             then Some (((h * 60 + mi) * 60 + sec) * 1000) else None
         | _ \<Rightarrow> None)
      else None)"

definition parseISO :: "int \<Rightarrow> string \<Rightarrow> int option" where
  "parseISO tz s =
     (if length s = 10 then
        map_option (\<lambda>day. day * msPerDay) (parseDatePart s)
      else if length s = 19 \<and> s ! 10 = CHR ''T'' then
        (case (parseDatePart (take 10 s), parseTimePart (drop 11 s)) of
           (Some day, Some t) \<Rightarrow> Some (day * msPerDay + t - tz * 60000)
         | _ \<Rightarrow> None)
      else if length s = 20 \<and> s ! 10 = CHR ''T'' \<and> s ! 19 = CHR ''Z'' then
        (case (parseDatePart (take 10 s), parseTimePart (take 8 (drop 11 s))) of
           (Some day, Some t) \<Rightarrow> Some (day * msPerDay + t)
         | _ \<Rightarrow> None)
      else None)"

definition localDate :: "int \<Rightarrow> int \<Rightarrow> int \<times> int \<times> int" where
  "localDate tz t = civil_from_days ((t + tz * 60000) div msPerDay)"

definition monthValues :: "string list" where
  "monthValues =
     [''janeiro'', ''fevereiro'', ''mar'' @ [CHR 0xC3, CHR 0xA7] @ ''o'', ''abril'', ''maio'',
      ''junho'', ''julho'', ''agosto'', ''setembro'', ''outubro'', ''novembro'', ''dezembro'']"

definition ptBR_MMMM_yyyy :: "int \<Rightarrow> int \<Rightarrow> string" where
  "ptBR_MMMM_yyyy tz t =
     (case localDate tz t of (signedYear, month, day) \<Rightarrow>
        let year = (if signedYear > 0 then signedYear else 1 - signedYear)
        in monthValues ! nat (month - 1) @ '' '' @ addLeadingZeros (nat year) 4)"

definition ptBR_date :: "int \<Rightarrow> int \<Rightarrow> string" where
  "ptBR_date tz t =
     (case localDate tz t of (signedYear, month, day) \<Rightarrow>
        let year = (if signedYear > 0 then signedYear else 1 - signedYear)
        in addLeadingZeros (nat day) 2 @ ''/'' @ addLeadingZeros (nat month) 2 @ ''/'' @
           string_of_nat (nat year))"

definition isoHost :: "int \<Rightarrow> host" where
  "isoHost tz = \<lparr> newDate = parseISO tz, monthYear = ptBR_MMMM_yyyy tz, localeDate = ptBR_date tz \<rparr>"

subsection \<open>Array.prototype.sort\<close>

text \<open>
  ECMAScript's sort is stable, and a comparator result of NaN counts as \<open>+0\<close>. For a
  consistent comparator the sorted arrangement is therefore unique, and the stable
  insertion sort below computes it. (With an inconsistent comparator the order is left to
  the engine; the comparator of the transaction list is a difference of valid time values
  whenever the sort is reached.)
\<close>

definition sortCompare :: "('a \<Rightarrow> 'a \<Rightarrow> int option) \<Rightarrow> 'a \<Rightarrow> 'a \<Rightarrow> int" where
  "sortCompare comparefn x y = (case comparefn x y of None \<Rightarrow> 0 | Some v \<Rightarrow> v)"

fun insertSorted :: "('a \<Rightarrow> 'a \<Rightarrow> int option) \<Rightarrow> 'a \<Rightarrow> 'a list \<Rightarrow> 'a list" where
  "insertSorted comparefn x [] = [x]"
| "insertSorted comparefn x (y # ys) =
     (if sortCompare comparefn x y \<le> 0 then x # y # ys
      else y # insertSorted comparefn x ys)"

definition Array_sort :: "('a \<Rightarrow> 'a \<Rightarrow> int option) \<Rightarrow> 'a list \<Rightarrow> 'a list" where
  "Array_sort comparefn xs = foldr (insertSorted comparefn) xs []"

section \<open>Transaction list (TransactionList component)\<close>

record account =
  id_acc :: int
  name :: string
  balance :: real

record transaction =
  id_tx :: int
  description :: string
  amount :: real
  transaction_type :: string
  category :: string
  account_id :: int
  date :: string

type_synonym grouped = "(string \<times> transaction list) list"

text \<open>
  \<open>getAccountName\<close>: \<open>accounts.find\<close> gives the first account with the id, or
  \<open>undefined\<close>; an account object is truthy.
\<close>

definition getAccountName :: "account list \<Rightarrow> int \<Rightarrow> string" where
  "getAccountName accounts accountId =
     (case List.find (\<lambda>acc. id_acc acc = accountId) accounts of
        Some account \<Rightarrow> name account
      | None \<Rightarrow> ''Conta desconhecida'')"

text \<open>
  \<open>groupTransactionsByMonth\<close>. The object \<open>grouped\<close> is an association list in the order
  its keys were created, which is the order in which \<open>Object.keys\<close> lists keys that are
  not array indices. The labels that date-fns renders (a month name, a space, a year) are
  never array indices and never names inherited from \<open>Object.prototype\<close>, so the test
  \<open>!grouped[monthKey]\<close> holds exactly when the key is absent. The comparator of the sort
  is \<open>new Date(b.date) - new Date(a.date)\<close>.
\<close>

definition compareDates :: "host \<Rightarrow> transaction \<Rightarrow> transaction \<Rightarrow> int option" where
  "compareDates h a b =
     (case (newDate h (date b), newDate h (date a)) of
        (Some tb, Some ta) \<Rightarrow> Some (tb - ta)
      | _ \<Rightarrow> None)"

text \<open>
  The body of the first loop: create the month's array when the key is absent, then push
  the transaction onto the month's array.
\<close>

definition pushToGroup :: "string \<Rightarrow> transaction \<Rightarrow> grouped \<Rightarrow> grouped" where
  "pushToGroup monthKey transaction grouped =
     AList.map_entry monthKey (\<lambda>arr. arr @ [transaction])
       (if map_of grouped monthKey = None
        then AList.update monthKey [] grouped else grouped)"

fun groupLoop :: "host \<Rightarrow> transaction list \<Rightarrow> grouped \<Rightarrow> error + grouped" where
  "groupLoop h [] grouped = Inr grouped"
| "groupLoop h (transaction # rest) grouped =
     (case format_MMMM_yyyy h (newDate h (date transaction)) of
        Inl e \<Rightarrow> Inl e
      | Inr monthKey \<Rightarrow> groupLoop h rest (pushToGroup monthKey transaction grouped))"

definition sortGroups :: "host \<Rightarrow> grouped \<Rightarrow> grouped" where
  "sortGroups h grouped =
     foldl (\<lambda>g month. AList.map_entry month (Array_sort (compareDates h)) g)
       grouped (map fst grouped)"

definition groupTransactionsByMonth :: "host \<Rightarrow> transaction list \<Rightarrow> error + grouped" where
  "groupTransactionsByMonth h transactions =
     (case groupLoop h transactions [] of
        Inl e \<Rightarrow> Inl e
      | Inr grouped \<Rightarrow> Inr (sortGroups h grouped))"

section \<open>JavaScript values, fetch outcomes and component state\<close>

text \<open>
  The filter fields and the selected account hold values of several JavaScript types: the
  initial state has numbers for month and year and empty strings for the rest, and the
  guards test truthiness. Numbers in these places are integers. Strings are sequences of
  UTF-8 bytes.
\<close>

datatype jsval = JUndefined | JNull | JNum int | JStr string

fun truthy :: "jsval \<Rightarrow> bool" where
  "truthy JUndefined = False"
| "truthy JNull = False"
| "truthy (JNum n) = (n \<noteq> 0)"
| "truthy (JStr s) = (s \<noteq> [])"

fun toString :: "jsval \<Rightarrow> string" where
  "toString JUndefined = ''undefined''"
| "toString JNull = ''null''"
| "toString (JNum n) =
     (if n < 0 then ''-'' @ string_of_nat (nat (- n)) else string_of_nat (nat n))"
| "toString (JStr s) = s"

text \<open>An object is a map from property names to values; a missing property reads as
  \<open>undefined\<close>.\<close>

type_synonym jsobject = "string \<rightharpoonup> jsval"

definition getProp :: "jsobject \<Rightarrow> string \<Rightarrow> jsval" where
  "getProp obj k = (case obj k of None \<Rightarrow> JUndefined | Some v \<Rightarrow> v)"

text \<open>
  \<open>URLSearchParams\<close>: a list of name-value pairs in the order of the \<open>append\<close> calls. Its
  string is the \<open>application/x-www-form-urlencoded\<close> serialisation: ASCII letters, digits
  and \<open>* - . _\<close> stay, a space becomes \<open>+\<close>, every other byte is percent-encoded.
\<close>

definition isUrlSafe :: "char \<Rightarrow> bool" where
  "isUrlSafe c =
     (let n = of_char c :: nat
      in (48 \<le> n \<and> n \<le> 57) \<or> (65 \<le> n \<and> n \<le> 90) \<or> (97 \<le> n \<and> n \<le> 122) \<or>
         c = CHR ''*'' \<or> c = CHR ''-'' \<or> c = CHR ''.'' \<or> c = CHR ''_'')"

definition urlencodeByte :: "char \<Rightarrow> string" where
  "urlencodeByte c =
     (if c = CHR '' '' then ''+''
      else if isUrlSafe c then [c]
      else (let n = of_char c :: nat
            in [CHR ''%'', ''0123456789ABCDEF'' ! (n div 16), ''0123456789ABCDEF'' ! (n mod 16)]))"

definition urlencode :: "string \<Rightarrow> string" where
  "urlencode s = concat (map urlencodeByte s)"

fun joinWith :: "string \<Rightarrow> string list \<Rightarrow> string" where
  "joinWith sep [] = []"
| "joinWith sep [x] = x"
| "joinWith sep (x # xs) = x @ sep @ joinWith sep xs"

definition URLSearchParams_toString :: "(string \<times> string) list \<Rightarrow> string" where
  "URLSearchParams_toString params =
     joinWith ''&'' (map (\<lambda>(n, v). urlencode n @ ''='' @ urlencode v) params)"

definition appendParam :: "(string \<times> string) list \<Rightarrow> string \<Rightarrow> jsval \<Rightarrow> (string \<times> string) list" where
  "appendParam params n v = params @ [(n, toString v)]"

text \<open>
  The outcome of \<open>await fetch(url)\<close> followed by \<open>await response.json()\<close>: either one of
  the two rejects with an error, or the parsed data arrives. The network is a function
  from the requested URL to the outcome.
\<close>

datatype 'a fetched = Rejected string | Resolved 'a

text \<open>
  State shared by the components that load data: the loading flag, and the diagnostic
  channel (\<open>console.error\<close>) as the list of logged message-error pairs.
\<close>

record component =
  loading :: bool
  console :: "(string \<times> string) list"

section \<open>Balance chart (BalanceChart.jsx)\<close>

record balanceHistoryPoint =
  date_pt :: string
  balance_pt :: real

record balanceChart = component +
  selectedAccount :: jsval
  balanceHistory :: "balanceHistoryPoint list"

text \<open>
  \<open>loadBalanceHistory\<close>, from the call to the state after the \<open>finally\<close> block. The logged
  message is written in UTF-8 bytes: the \<open>o\<close> of \<open>historico\<close> carries an acute accent.
\<close>

definition loadBalanceHistory ::
  "(string \<Rightarrow> balanceHistoryPoint list fetched) \<Rightarrow> balanceChart \<Rightarrow> balanceChart" where
  "loadBalanceHistory fetch st =
     (if \<not> truthy (selectedAccount st) then st
      else
        let st1 = st\<lparr>loading := True\<rparr>;
            st2 =
              (case fetch (''http://localhost:8000/accounts/'' @ toString (selectedAccount st1) @
                           ''/balance-history?days=30'') of
                 Resolved data \<Rightarrow> st1\<lparr>balanceHistory := data\<rparr>
               | Rejected err \<Rightarrow>
                   st1\<lparr>console := console st1 @
                          [(''Erro ao carregar hist'' @ [CHR 0xC3, CHR 0xB3] @ ''rico de saldo:'', err)],
                       balanceHistory := []\<rparr>)
        in st2\<lparr>loading := False\<rparr>)"



section \<open>Dashboard (Dashboard.jsx)\<close>

record dashboard = component +
  transactions :: "transaction list"
  accounts :: "account list"
  openForm :: bool
  filters :: jsobject

definition loadAccounts :: "(string \<Rightarrow> account list fetched) \<Rightarrow> dashboard \<Rightarrow> dashboard" where
  "loadAccounts fetch st =
     (case fetch ''http://localhost:8000/accounts/'' of
        Resolved data \<Rightarrow> st\<lparr>accounts := data\<rparr>
      | Rejected err \<Rightarrow> st\<lparr>console := console st @ [(''Erro ao carregar contas:'', err)]\<rparr>)"

text \<open>The query of \<open>loadTransactions\<close>: each filter field is appended when it is truthy.\<close>

definition transactionParams :: "jsobject \<Rightarrow> (string \<times> string) list" where
  "transactionParams fs =
     (let params = [];
          params = (if truthy (getProp fs ''month'')
                    then appendParam params ''month'' (getProp fs ''month'') else params);
          params = (if truthy (getProp fs ''year'')
                    then appendParam params ''year'' (getProp fs ''year'') else params);
          params = (if truthy (getProp fs ''transactionType'')
                    then appendParam params ''transaction_type'' (getProp fs ''transactionType'')
                    else params);
          params = (if truthy (getProp fs ''category'')
                    then appendParam params ''category'' (getProp fs ''category'') else params);
          params = (if truthy (getProp fs ''accountId'')
                    then appendParam params ''account_id'' (getProp fs ''accountId'') else params)
      in params)"

definition transactionsUrl :: "jsobject \<Rightarrow> string" where
  "transactionsUrl fs =
     ''http://localhost:8000/transactions/?'' @ URLSearchParams_toString (transactionParams fs)"

text \<open>
  \<open>loadTransactions\<close>, from the call to the state after the \<open>finally\<close> block. The logged
  message is written in UTF-8 bytes: \<open>transacoes\<close> has a cedilla and a tilde.
\<close>

definition loadTransactions ::
  "(string \<Rightarrow> transaction list fetched) \<Rightarrow> dashboard \<Rightarrow> dashboard" where
  "loadTransactions fetch st =
     (let st1 = st\<lparr>loading := True\<rparr>;
          st2 =
            (case fetch (transactionsUrl (filters st1)) of
               Resolved data \<Rightarrow> st1\<lparr>transactions := data\<rparr>
             | Rejected err \<Rightarrow>
                 st1\<lparr>console := console st1 @
                        [(''Erro ao carregar transa'' @ [CHR 0xC3, CHR 0xA7, CHR 0xC3, CHR 0xB5] @
                          ''es:'', err)]\<rparr>)
      in st2\<lparr>loading := False\<rparr>)"

text \<open>\<open>handleFiltersChange\<close>: the object spread \<open>{ ...filters, ...newFilters }\<close> takes each
  property of \<open>newFilters\<close> and, for the other names, the property of \<open>filters\<close>.\<close>

definition handleFiltersChange :: "dashboard \<Rightarrow> jsobject \<Rightarrow> dashboard" where
  "handleFiltersChange st newFilters = st\<lparr>filters := filters st ++ newFilters\<rparr>"

section \<open>Sample data for the concrete scenarios\<close>

definition sampleTransaction :: "int \<Rightarrow> string \<Rightarrow> transaction" where
  "sampleTransaction i d =
     \<lparr>id_tx = i, description = ''Mercado'', amount = 10, transaction_type = ''saida'',
      category = ''Casa'', account_id = 1, date = d\<rparr>"

definition sampleDashboard :: dashboard where
  "sampleDashboard =
     \<lparr>loading = False, console = [],
      transactions = [sampleTransaction 1 ''2024-01-05''],
      accounts = [\<lparr>id_acc = 1, name = ''Carteira'', balance = 250\<rparr>],
      openForm = False,
      filters = [''month'' \<mapsto> JNum 3, ''year'' \<mapsto> JNum 2024, ''transactionType'' \<mapsto> JStr [],
                 ''category'' \<mapsto> JStr [], ''accountId'' \<mapsto> JStr []]\<rparr>"

definition sampleChart :: balanceChart where
  "sampleChart =
     \<lparr>loading = False, console = [], selectedAccount = JNum 1,
      balanceHistory = [\<lparr>date_pt = ''2024-01-01'', balance_pt = 100\<rparr>,
                        \<lparr>date_pt = ''2024-01-02'', balance_pt = 150\<rparr>]\<rparr>"

text \<open>A filter field counts as unset or empty when the property is missing, \<open>undefined\<close>,
  \<open>null\<close> or the empty string.\<close>

definition unsetProp :: "jsobject \<Rightarrow> string \<Rightarrow> bool" where
  "unsetProp fs k =
     (fs k = None \<or> fs k = Some JUndefined \<or> fs k = Some JNull \<or> fs k = Some (JStr []))"

text \<open>Every transaction of every group carries the group's month label.\<close>

definition inOwnGroup :: "host \<Rightarrow> grouped \<Rightarrow> bool" where
  "inOwnGroup h g =
     (\<forall>p \<in> set g. \<forall>t \<in> set (snd p). format_MMMM_yyyy h (newDate h (date t)) = Inr (fst p))"

section \<open>Rounding to the nearest double\<close>

lemma quantumDown_eq:
  assumes "k \<le> j" "2 powi (k + 52) \<le> \<bar>x\<bar> \<or> k = - 1074" "\<bar>x\<bar> < 2 powi (k + 53)" "- 1074 \<le> k"
  shows "quantumDown x j = k"
  using assms
proof (induction "nat (j - k)" arbitrary: j)
  case 0
  then have "j = k" by simp
  with 0 show ?case by (auto simp: quantumDown.simps [of x k])
next
  case (Suc n)
  then have lt: "k < j" by linarith
  have "(2::real) powi (k + 53) \<le> 2 powi (j + 52)"
    using lt by (intro power_int_increasing) auto
  with Suc.prems have "\<bar>x\<bar> < 2 powi (j + 52)" by linarith
  moreover have "- 1074 < j" using lt Suc.prems by linarith
  ultimately have "quantumDown x j = quantumDown x (j - 1)"
    by (simp add: quantumDown.simps [of x j])
  moreover have "quantumDown x (j - 1) = k"
    using Suc.hyps Suc.prems lt by (intro Suc.hyps(1)) auto
  ultimately show ?case by simp
qed

lemma quantumUp_eq:
  assumes "j \<le> k" "2 powi (k + 52) \<le> \<bar>x\<bar>" "\<bar>x\<bar> < 2 powi (k + 53) \<or> k = 971" "k \<le> 971"
  shows "quantumUp x j = k"
  using assms
proof (induction "nat (k - j)" arbitrary: j)
  case 0
  then have "j = k" by simp
  with 0 show ?case by (auto simp: quantumUp.simps [of x k])
next
  case (Suc n)
  then have lt: "j < k" by linarith
  have "(2::real) powi (j + 53) \<le> 2 powi (k + 52)"
    using lt by (intro power_int_increasing) auto
  with Suc.prems have "2 powi (j + 53) \<le> \<bar>x\<bar>" by linarith
  moreover have "j < 971" using lt Suc.prems by linarith
  ultimately have "quantumUp x j = quantumUp x (j + 1)"
    by (simp add: quantumUp.simps [of x j])
  moreover have "quantumUp x (j + 1) = k"
    using Suc.hyps Suc.prems lt by (intro Suc.hyps(1)) auto
  ultimately show ?case by simp
qed

lemma quantum_eq:
  assumes "2 powi (k + 52) \<le> \<bar>x\<bar> \<or> k = - 1074" "\<bar>x\<bar> < 2 powi (k + 53) \<or> k = 971"
    "- 1074 \<le> k" "k \<le> 971"
  shows "quantum x = k"
proof (cases "2 powi 53 \<le> \<bar>x\<bar>")
  case True
  have k0: "0 \<le> k"
  proof (rule ccontr)
    assume "\<not> 0 \<le> k"
    then have "k < 0" by simp
    then have "(2::real) powi (k + 53) \<le> 2 powi 53"
      by (intro power_int_increasing) auto
    with True assms(2) \<open>k < 0\<close> show False by auto
  qed
  have "2 powi (k + 52) \<le> \<bar>x\<bar>"
  proof -
    from assms(1) k0 show ?thesis by auto
  qed
  with k0 assms have "quantumUp x 0 = k" by (intro quantumUp_eq) auto
  with True show ?thesis by (simp add: quantum_def)
next
  case False
  have k0: "k \<le> 0"
  proof (rule ccontr)
    assume "\<not> k \<le> 0"
    then have "0 < k" by simp
    then have "(2::real) powi 53 \<le> 2 powi (k + 52)"
      by (intro power_int_increasing) auto
    with False assms(1) \<open>0 < k\<close> show False by auto
  qed
  have "\<bar>x\<bar> < 2 powi (k + 53)"
    using assms(2) k0 by auto
  with k0 assms have "quantumDown x 0 = k" by (intro quantumDown_eq) auto
  with False show ?thesis by (simp add: quantum_def)
qed


lemma quantumDown_inv:
  "- 1074 \<le> k \<Longrightarrow>
   - 1074 \<le> quantumDown x k \<and>
   (2 powi (quantumDown x k + 52) \<le> \<bar>x\<bar> \<or> quantumDown x k = - 1074)"
proof (induction x k rule: quantumDown.induct)
  case (1 x k)
  show ?case
  proof (cases "- 1074 < k \<and> \<bar>x\<bar> < 2 powi (k + 52)")
    case True
    then have "quantumDown x k = quantumDown x (k - 1)"
      by (simp add: quantumDown.simps [of x k])
    moreover have "- 1074 \<le> k - 1" using True by simp
    ultimately show ?thesis using "1.IH" [OF True] by simp
  next
    case False
    then have "quantumDown x k = k"
      by (subst quantumDown.simps) auto
    with False "1.prems" show ?thesis by auto
  qed
qed

lemma quantumUp_inv:
  "2 powi (k + 52) \<le> \<bar>x\<bar> \<Longrightarrow> 2 powi (quantumUp x k + 52) \<le> \<bar>x\<bar>"
proof (induction x k rule: quantumUp.induct)
  case (1 x k)
  show ?case
  proof (cases "k < 971 \<and> 2 powi (k + 53) \<le> \<bar>x\<bar>")
    case True
    then have "quantumUp x k = quantumUp x (k + 1)"
      by (simp add: quantumUp.simps [of x k])
    moreover have "2 powi (k + 1 + 52) \<le> \<bar>x\<bar>" using True by (simp add: add.commute)
    ultimately show ?thesis using "1.IH" [OF True] by simp
  next
    case False
    then have "quantumUp x k = k"
      by (subst quantumUp.simps) auto
    with "1.prems" show ?thesis by simp
  qed
qed

lemma quantum_cases:
  "2 powi (quantum x + 52) \<le> \<bar>x\<bar> \<or> quantum x = - 1074"
proof (cases "2 powi 53 \<le> \<bar>x\<bar>")
  case True
  have "(2::real) powi (0 + 52) \<le> 2 powi 53"
    by (intro power_int_increasing) auto
  with True have "2 powi (0 + 52) \<le> \<bar>x\<bar>" by linarith
  from quantumUp_inv [OF this] True show ?thesis by (simp add: quantum_def)
next
  case False
  with quantumDown_inv [of 0 x] show ?thesis by (simp add: quantum_def)
qed

lemma roundTiesToEven_error: "\<bar>of_int (roundTiesToEven y) - y\<bar> \<le> 1 / 2"
  unfolding roundTiesToEven_def Let_def by (auto; linarith)

lemma roundDouble_error:
  "\<bar>roundDouble x - x\<bar> \<le> \<bar>x\<bar> * 2 powi (- 53) + 2 powi (- 1075)"
proof -
  define q where "q = quantum x"
  define u :: real where "u = 2 powi q"
  have upos: "0 < u" by (simp add: u_def)
  have "roundDouble x - x = (of_int (roundTiesToEven (x / u)) - x / u) * u"
    using upos by (simp add: roundDouble_def q_def u_def field_simps)
  then have "\<bar>roundDouble x - x\<bar> = \<bar>of_int (roundTiesToEven (x / u)) - x / u\<bar> * u"
    using upos by (simp add: abs_mult)
  also have "\<dots> \<le> (1 / 2) * u"
    using roundTiesToEven_error [of "x / u"] upos by (intro mult_right_mono) auto
  finally have half: "\<bar>roundDouble x - x\<bar> \<le> u / 2" by simp
  have u2: "u / 2 = 2 powi (q - 1)"
    by (simp add: u_def power_int_diff)
  from quantum_cases [of x] show ?thesis
  proof
    assume "2 powi (quantum x + 52) \<le> \<bar>x\<bar>"
    then have "2 powi (q + 52) * 2 powi (- 53) \<le> \<bar>x\<bar> * 2 powi (- 53)"
      by (intro mult_right_mono) (auto simp: q_def)
    moreover have "(2::real) powi (q + 52) * 2 powi (- 53) = 2 powi (q - 1)"
    proof -
      have "(2::real) powi ((q + 52) + (- 53)) = 2 powi (q + 52) * 2 powi (- 53)"
        by (rule power_int_add) simp
      moreover have "(q + 52) + (- 53) = q - 1" by simp
      ultimately show ?thesis by simp
    qed
    moreover have "(0::real) \<le> 2 powi (- 1075)" by simp
    ultimately show ?thesis using half u2 by linarith
  next
    assume "quantum x = - 1074"
    then have "u / 2 = 2 powi (- 1075)" using u2 by (simp add: q_def)
    moreover have "0 \<le> \<bar>x\<bar> * 2 powi (- 53)" by simp
    ultimately show ?thesis using half by linarith
  qed
qed

lemma eps_val: "(2::real) powi (- 53) = 1 / 9007199254740992"
  by (simp add: power_int_minus inverse_eq_divide)

lemma eta_le: "(2::real) powi (- 1075) \<le> 2 powi (- 53)"
  by (intro power_int_increasing) auto

lemma eps_bounds:
  fixes e n :: real
  assumes "e = 2 powi (- 53)" "n = 2 powi (- 1075)"
  shows "0 \<le> e" "e \<le> 1 / 12" "600 * e + 201 * n \<le> 1 / 10 ^ 12" "0 \<le> n" "201 * n \<le> 1"
proof -
  have ev: "e = 1 / 9007199254740992" using assms(1) eps_val by simp
  have n0: "0 \<le> n" using assms(2) by simp
  have ne: "n \<le> e" using assms eta_le by simp
  show "0 \<le> e" "e \<le> 1 / 12" using ev by simp_all
  show "0 \<le> n" by (rule n0)
  show "600 * e + 201 * n \<le> 1 / 10 ^ 12" using ev ne by simp
  show "201 * n \<le> 1" using ev ne by simp
qed

lemma chain_bound:
  fixes X Y Z W t n :: real
  assumes "X \<le> 100 * Z + n" "Y \<le> t + n" "Z \<le> 2 * t + n" "W \<le> X + 100 * Y"
  shows "W \<le> 300 * t + 201 * n"
  using assms by linarith

lemma product_error:
  fixes b :: real
  defines "c \<equiv> b / 5000 * 100"
  defines "p \<equiv> roundDouble (roundDouble (b / 5000) * 100)"
  shows "\<bar>p - c\<bar> \<le> 3 * \<bar>c\<bar> * 2 powi (- 53) + 201 * 2 powi (- 1075)"
proof -
  define e :: real where "e = 2 powi (- 53)"
  define n :: real where "n = 2 powi (- 1075)"
  define a where "a = b / 5000"
  define q where "q = roundDouble a"
  define t where "t = \<bar>a\<bar> * e"
  have e: "0 \<le> e" "e \<le> 1" and n: "0 \<le> n"
    using eps_bounds [OF e_def n_def] by simp_all
  have t0: "0 \<le> t" using e by (simp add: t_def)
  have qa: "\<bar>q - a\<bar> \<le> t + n"
    using roundDouble_error [of a] by (simp add: q_def t_def e_def n_def)
  have pq: "\<bar>p - q * 100\<bar> \<le> 100 * (\<bar>q\<bar> * e) + n"
    using roundDouble_error [of "q * 100"]
    by (simp add: p_def q_def a_def e_def n_def abs_mult)
  have "\<bar>q\<bar> \<le> \<bar>a\<bar> + t + n" using qa by linarith
  then have "\<bar>q\<bar> * e \<le> (\<bar>a\<bar> + t + n) * e"
    using e by (intro mult_right_mono) auto
  also have "\<dots> = t + t * e + n * e" by (simp add: t_def algebra_simps)
  also have "\<dots> \<le> t + t + n"
  proof -
    have "t * e \<le> t * 1" using t0 e by (intro mult_left_mono) auto
    moreover have "n * e \<le> n * 1" using n e by (intro mult_left_mono) auto
    ultimately show ?thesis by simp
  qed
  finally have qe: "\<bar>q\<bar> * e \<le> 2 * t + n" by simp
  have eq: "p - c = (p - q * 100) + 100 * (q - a)" by (simp add: c_def a_def)
  have tri: "\<bar>p - c\<bar> \<le> \<bar>p - q * 100\<bar> + \<bar>100 * (q - a)\<bar>"
    unfolding eq by (rule abs_triangle_ineq)
  have h: "\<bar>100 * (q - a)\<bar> = 100 * \<bar>q - a\<bar>"
    by (subst abs_mult) simp
  from tri have "\<bar>p - c\<bar> \<le> \<bar>p - q * 100\<bar> + 100 * \<bar>q - a\<bar>"
    unfolding h .
  with pq qa qe have "\<bar>p - c\<bar> \<le> 300 * t + 201 * n" by (rule chain_bound)
  moreover have "300 * t = 3 * \<bar>c\<bar> * e" by (simp add: t_def c_def a_def abs_mult)
  ultimately show ?thesis by (simp add: e_def n_def)
qed

lemma getProgressValue_near:
  "\<bar>getProgressValue b - clamp (b / 5000 * 100) 0 100\<bar> \<le> 1 / 10 ^ 12"
proof -
  define c where "c = b / 5000 * 100"
  define p where "p = roundDouble (roundDouble (b / 5000) * 100)"
  define e :: real where "e = 2 powi (- 53)"
  define n :: real where "n = 2 powi (- 1075)"
  have g: "getProgressValue b = max 0 (min 100 p)"
    by (simp add: getProgressValue_def p_def)
  have err: "\<bar>p - c\<bar> \<le> 3 * \<bar>c\<bar> * e + 201 * n"
    using product_error [of b] by (simp add: p_def c_def e_def n_def)
  have e: "0 \<le> e" "e \<le> 1 / 12" and n: "0 \<le> n" "201 * n \<le> 1"
    and small: "600 * e + 201 * n \<le> 1 / 10 ^ 12"
    using eps_bounds [OF e_def n_def] by simp_all
  have quarter: "3 * \<bar>c\<bar> * e \<le> \<bar>c\<bar> / 4"
  proof -
    have "\<bar>c\<bar> * e \<le> \<bar>c\<bar> * (1 / 12)" using e by (intro mult_left_mono) auto
    then show ?thesis by simp
  qed
  consider "\<bar>c\<bar> \<le> 200" | "200 < c" | "c < - 200" by linarith
  then have "\<bar>max 0 (min 100 p) - clamp c 0 100\<bar> \<le> 1 / 10 ^ 12"
  proof cases
    case 1
    then have "\<bar>c\<bar> * e \<le> 200 * e" using e by (intro mult_right_mono) auto
    with err small have "\<bar>p - c\<bar> \<le> 1 / 10 ^ 12" by linarith
    then show ?thesis by (auto simp: clamp_def max_def min_def)
  next
    case 2
    with err quarter n have "100 < p" by linarith
    with 2 show ?thesis by (simp add: clamp_def max_def min_def)
  next
    case 3
    with err quarter n have "p < 0" by linarith
    with 3 show ?thesis by (simp add: clamp_def max_def min_def)
  qed
  then show ?thesis by (simp add: g c_def)
qed

subsection \<open>The balances 2500, 10000, -100 and 7\<close>

lemma q7: "quantum (7 / 5000) = - 62"
  by (rule quantum_eq; code_simp)

lemma r7: "roundDouble (7 / 5000) = 6456360425798343 / 2 ^ 62"
  unfolding roundDouble_def q7 by code_simp

lemma q2500a: "quantum (2500 / 5000) = - 53" by (rule quantum_eq; code_simp)
lemma q2500b: "quantum (1 / 2 * 100) = - 47" by (rule quantum_eq; code_simp)
lemma g2500: "getProgressValue 2500 = 50"
proof -
  have d: "roundDouble (2500 / 5000) = 1 / 2"
    unfolding roundDouble_def q2500a by code_simp
  have m: "roundDouble (1 / 2 * 100) = 50"
    unfolding roundDouble_def q2500b by code_simp
  show ?thesis unfolding getProgressValue_def Let_def d m by simp
qed

lemma q7b: "quantum (6456360425798343 / 2 ^ 62 * 100) = - 55" by (rule quantum_eq; code_simp)
lemma g7: "getProgressValue 7 = 5044031582654955 / 2 ^ 55"
proof -
  have m: "roundDouble (6456360425798343 / 2 ^ 62 * 100) = 5044031582654955 / 2 ^ 55"
    unfolding roundDouble_def q7b by code_simp
  show ?thesis unfolding getProgressValue_def Let_def r7 m by simp
qed


lemma q10000a: "quantum (10000 / 5000) = - 51" by (rule quantum_eq; code_simp)
lemma q10000b: "quantum (2 * 100) = - 45" by (rule quantum_eq; code_simp)
lemma g10000: "getProgressValue 10000 = 100"
proof -
  have d: "roundDouble (10000 / 5000) = 2"
    unfolding roundDouble_def q10000a by code_simp
  have m: "roundDouble (2 * 100) = 200"
    unfolding roundDouble_def q10000b by code_simp
  show ?thesis unfolding getProgressValue_def Let_def d m by simp
qed

lemma qm100a: "quantum (- 100 / 5000) = - 58" by (rule quantum_eq; code_simp)
lemma qm100b: "quantum (- (5764607523034235 / 2 ^ 58) * 100) = - 51" by (rule quantum_eq; code_simp)
lemma gm100: "getProgressValue (- 100) = 0"
proof -
  have d: "roundDouble (- 100 / 5000) = - (5764607523034235 / 2 ^ 58)"
    unfolding roundDouble_def qm100a by code_simp
  have m: "roundDouble (- (5764607523034235 / 2 ^ 58) * 100) = - 2"
    unfolding roundDouble_def qm100b by code_simp
  show ?thesis unfolding getProgressValue_def Let_def d m by simp
qed

section \<open>Properties of the account indicator\<close>

text \<open>
  C2. For every real balance \<open>b\<close>, \<open>getBalanceColor\<close> gives the success colour exactly
  when \<open>b > 1000\<close>, the error colour exactly when \<open>b \<le> 0\<close>, and the warning colour
  exactly when \<open>0 < b \<le> 1000\<close>; the balance 1000 is in the warning tier and the balance
  0 in the error tier.
\<close>

theorem getBalanceColor_tiers:
  "(getBalanceColor b = ''success.main'') = (b > 1000) \<and>
   (getBalanceColor b = ''error.main'') = (b \<le> 0) \<and>
   (getBalanceColor b = ''warning.main'') = (0 < b \<and> b \<le> 1000) \<and>
   getBalanceColor 1000 = ''warning.main'' \<and>
   getBalanceColor 0 = ''error.main''"
  by (simp add: getBalanceColor_def)

text \<open>
  C3, in double arithmetic. For every balance \<open>b\<close>, \<open>getProgressValue\<close> returns
  \<open>clamp(x, 0, 100)\<close> where \<open>x\<close> is \<open>b / 5000 * 100\<close> with the quotient and the product each
  rounded to the nearest double; the result is within \<open>1 / 10 ^ 12\<close> of the exact
  \<open>clamp(b / 5000 * 100, 0, 100)\<close>; the balances 2500, 10000 and -100 give exactly 50, 100
  and 0.
\<close>

theorem getProgressValue_double:
  "getProgressValue b = clamp (roundDouble (roundDouble (b / 5000) * 100)) 0 100 \<and>
   \<bar>getProgressValue b - clamp (b / 5000 * 100) 0 100\<bar> \<le> 1 / 10 ^ 12 \<and>
   getProgressValue 2500 = 50 \<and>
   getProgressValue 10000 = 100 \<and>
   getProgressValue (- 100) = 0"
proof -
  have "getProgressValue b = clamp (roundDouble (roundDouble (b / 5000) * 100)) 0 100"
    by (simp add: getProgressValue_def clamp_def Let_def max_def min_def)
  with getProgressValue_near [of b] g2500 g10000 gm100 show ?thesis by blast
qed

text \<open>
  C3 as stated says that the result is exactly \<open>clamp(b / 5000 * 100, 0, 100)\<close>. At the
  balance 7 the exact value is \<open>7 / 50\<close>, which no double equals; the quotient
  \<open>7 / 5000\<close> rounds to \<open>6456360425798343 / 2 ^ 62\<close> and its product with 100 rounds to
  \<open>5044031582654955 / 2 ^ 55\<close>, printed by JavaScript as 0.13999999999999999.
\<close>

theorem getProgressValue_seven_counterexample:
  "getProgressValue 7 = 5044031582654955 / 2 ^ 55 \<and>
   clamp (7 / 5000 * 100) 0 100 = 7 / 50 \<and>
   getProgressValue 7 \<noteq> clamp (7 / 5000 * 100) 0 100"
proof -
  have c: "clamp (7 / 5000 * 100) 0 100 = 7 / 50" by (simp add: clamp_def)
  have "(5044031582654955::real) / 2 ^ 55 \<noteq> 7 / 50" by simp
  with g7 c show ?thesis by simp
qed

section \<open>Helper lemmas\<close>

subsection \<open>Sorting and grouping keep the transactions\<close>

lemma mset_insertSorted: "mset (insertSorted c x xs) = add_mset x (mset xs)"
  by (induction xs) auto

lemma mset_Array_sort: "mset (Array_sort c xs) = mset xs"
  by (induction xs) (auto simp: Array_sort_def mset_insertSorted)


lemma map_fst_map_entry: "map fst (AList.map_entry k f g) = map fst g"
  by (induction g) auto

lemma mset_concat_map_entry:
  "mset (f (the (map_of g k))) = mset (the (map_of g k)) \<Longrightarrow>
   mset (concat (map snd (AList.map_entry k f g))) = mset (concat (map snd g))"
  by (induction g) auto

lemma mset_concat_map_entry_all:
  "(\<And>xs. mset (f xs) = mset xs) \<Longrightarrow>
   mset (concat (map snd (AList.map_entry k f g))) = mset (concat (map snd g))"
  by (induction g) auto

lemma mset_concat_push:
  "k \<in> set (map fst g) \<Longrightarrow>
   mset (concat (map snd (AList.map_entry k (\<lambda>arr. arr @ [x]) g))) =
   add_mset x (mset (concat (map snd g)))"
  by (induction g) auto

lemma foldl_sort_keys:
  "map fst (foldl (\<lambda>g month. AList.map_entry month (Array_sort c) g) g ks) = map fst g \<and>
   mset (concat (map snd (foldl (\<lambda>g month. AList.map_entry month (Array_sort c) g) g ks))) =
   mset (concat (map snd g))"
  by (induction ks arbitrary: g)
     (auto simp: map_fst_map_entry mset_concat_map_entry_all mset_Array_sort)

lemma sortGroups_keys: "map fst (sortGroups h g) = map fst g"
  by (simp add: sortGroups_def foldl_sort_keys)

lemma sortGroups_mset: "mset (concat (map snd (sortGroups h g))) = mset (concat (map snd g))"
  by (simp add: sortGroups_def foldl_sort_keys)

lemma pushToGroup_mset:
  "mset (concat (map snd (pushToGroup k x g))) = add_mset x (mset (concat (map snd g)))"
proof (cases "map_of g k")
  case None
  have "k \<in> set (map fst (AList.update k [] g))"
    by (simp add: AList.dom_update)
  moreover have "mset (concat (map snd (AList.update k [] g))) = mset (concat (map snd g))"
    using None by (induction g) (auto split: if_splits)
  ultimately show ?thesis using None
    by (simp add: pushToGroup_def mset_concat_push del: set_map)
next
  case (Some v)
  then have "k \<in> set (map fst g)"
    by (metis map_of_eq_None_iff option.distinct(1) set_map)
  then show ?thesis using Some
    by (simp add: pushToGroup_def mset_concat_push del: set_map)
qed

lemma pushToGroup_distinct:
  "distinct (map fst g) \<Longrightarrow> distinct (map fst (pushToGroup k x g))"
  by (simp add: pushToGroup_def map_fst_map_entry AList.distinct_update)


lemma inOwnGroup_map_entry:
  "inOwnGroup h g \<Longrightarrow> (\<And>xs. set (f xs) = set xs) \<Longrightarrow> inOwnGroup h (AList.map_entry k f g)"
  unfolding inOwnGroup_def by (induction g) auto

lemma inOwnGroup_update_empty: "inOwnGroup h g \<Longrightarrow> inOwnGroup h (AList.update k [] g)"
  unfolding inOwnGroup_def by (induction g) auto

lemma inOwnGroup_push:
  "inOwnGroup h g \<Longrightarrow> format_MMMM_yyyy h (newDate h (date x)) = Inr k \<Longrightarrow>
   inOwnGroup h (AList.map_entry k (\<lambda>arr. arr @ [x]) g)"
  unfolding inOwnGroup_def by (induction g) auto

lemma pushToGroup_inOwnGroup:
  "inOwnGroup h g \<Longrightarrow> format_MMMM_yyyy h (newDate h (date x)) = Inr k \<Longrightarrow>
   inOwnGroup h (pushToGroup k x g)"
  by (simp add: pushToGroup_def inOwnGroup_push inOwnGroup_update_empty)

lemma set_Array_sort: "set (Array_sort c xs) = set xs"
  by (metis mset_Array_sort set_mset_mset)

lemma foldl_sort_inOwnGroup:
  "inOwnGroup h g \<Longrightarrow>
   inOwnGroup h (foldl (\<lambda>g month. AList.map_entry month (Array_sort c) g) g ks)"
  by (induction ks arbitrary: g) (auto simp: inOwnGroup_map_entry set_Array_sort)

lemma sortGroups_inOwnGroup: "inOwnGroup h g \<Longrightarrow> inOwnGroup h (sortGroups h g)"
  by (simp add: sortGroups_def foldl_sort_inOwnGroup)

lemma groupLoop_returns:
  "\<forall>t \<in> set ts. newDate h (date t) \<noteq> None \<Longrightarrow> \<exists>g'. groupLoop h ts g = Inr g'"
  by (induction ts arbitrary: g) (auto simp: format_MMMM_yyyy_def)

lemma groupLoop_invariants:
  "groupLoop h ts g = Inr g' \<Longrightarrow>
     mset (concat (map snd g')) = mset (concat (map snd g)) + mset ts \<and>
     (distinct (map fst g) \<longrightarrow> distinct (map fst g')) \<and>
     (inOwnGroup h g \<longrightarrow> inOwnGroup h g')"
proof (induction ts arbitrary: g)
  case Nil
  then show ?case by simp
next
  case (Cons t ts)
  from Cons.prems obtain k where k: "format_MMMM_yyyy h (newDate h (date t)) = Inr k"
    and rest: "groupLoop h ts (pushToGroup k t g) = Inr g'"
    by (auto split: sum.splits)
  from Cons.IH [OF rest] show ?case
    by (simp add: pushToGroup_mset pushToGroup_distinct pushToGroup_inOwnGroup k)
qed

lemma exactly_one_group:
  assumes m: "mset (concat (map snd g)) = mset ts"
    and d: "distinct (map fst g)"
    and o: "inOwnGroup h g"
    and t: "t \<in> set ts"
  shows "\<exists>!i. i < length g \<and> t \<in> set (snd (g ! i))"
proof -
  from m t have "t \<in> set (concat (map snd g))"
    by (metis set_mset_mset)
  then obtain p where p: "p \<in> set g" "t \<in> set (snd p)" by auto
  then obtain i where i: "i < length g" "g ! i = p" by (auto simp: in_set_conv_nth)
  have uniq: "j = i" if "j < length g" "t \<in> set (snd (g ! j))" for j
  proof -
    from o that have "format_MMMM_yyyy h (newDate h (date t)) = Inr (fst (g ! j))"
      by (auto simp: inOwnGroup_def)
    moreover from o p have "format_MMMM_yyyy h (newDate h (date t)) = Inr (fst p)"
      by (auto simp: inOwnGroup_def)
    ultimately have "map fst g ! j = map fst g ! i" using i that by simp
    moreover have "j < length (map fst g)" "i < length (map fst g)" using i that by simp_all
    ultimately show ?thesis using d nth_eq_iff_index_eq by blast
  qed
  from i p uniq show ?thesis by blast
qed


subsection \<open>The three dates of the scenario in the concrete host\<close>

lemma civil_epoch: "days_from_civil 1970 1 1 = 0 \<and> civil_from_days 0 = (1970, 1, 1)"
  by code_simp

lemma civil_leap_day:
  "civil_from_days (days_from_civil 2024 2 29) = (2024, 2, 29) \<and>
   civil_from_days (days_from_civil 2024 2 29 + 1) = (2024, 3, 1)"
  by code_simp

lemma parse_jan05: "parseISO tz ''2024-01-05'' = Some 1704412800000"
  by code_simp
lemma parse_jan20: "parseISO tz ''2024-01-20'' = Some 1705708800000"
  by code_simp
lemma parse_feb01: "parseISO tz ''2024-02-01'' = Some 1706745600000"
  by code_simp

lemma localDate_east:
  assumes "0 \<le> tz" "tz < 1440"
  shows "localDate tz (d * msPerDay) = civil_from_days d"
proof -
  have "(d * 86400000 + tz * 60000) div 86400000 = d"
    using assms by (simp add: div_pos_pos_trivial)
  then show ?thesis by (simp add: localDate_def msPerDay_def)
qed

lemma localDate_west:
  assumes "- 1440 \<le> tz" "tz < 0"
  shows "localDate tz (d * msPerDay) = civil_from_days (d - 1)"
proof -
  have "(d * 86400000 + tz * 60000) div 86400000 = d - 1"
    using assms by linarith
  then show ?thesis by (simp add: localDate_def msPerDay_def)
qed

lemma civil_19727: "civil_from_days 19727 = (2024, 1, 5)" by code_simp
lemma civil_19742: "civil_from_days 19742 = (2024, 1, 20)" by code_simp
lemma civil_19754: "civil_from_days 19754 = (2024, 2, 1)" by code_simp
lemma civil_19753: "civil_from_days 19753 = (2024, 1, 31)" by code_simp
lemma civil_19726: "civil_from_days 19726 = (2024, 1, 4)" by code_simp
lemma civil_19741: "civil_from_days 19741 = (2024, 1, 19)" by code_simp

lemma label_jan: "(case (2024::int, 1::int, d::int) of (signedYear, month, day) \<Rightarrow>
        let year = (if signedYear > 0 then signedYear else 1 - signedYear)
        in monthValues ! nat (month - 1) @ '' '' @ addLeadingZeros (nat year) 4) = ''janeiro 2024''"
  by code_simp

lemma label_feb: "(case (2024::int, 2::int, d::int) of (signedYear, month, day) \<Rightarrow>
        let year = (if signedYear > 0 then signedYear else 1 - signedYear)
        in monthValues ! nat (month - 1) @ '' '' @ addLeadingZeros (nat year) 4) = ''fevereiro 2024''"
  by code_simp

lemma east_labels:
  assumes "0 \<le> tz" "tz < 1440"
  shows "ptBR_MMMM_yyyy tz 1704412800000 = ''janeiro 2024''"
    and "ptBR_MMMM_yyyy tz 1705708800000 = ''janeiro 2024''"
    and "ptBR_MMMM_yyyy tz 1706745600000 = ''fevereiro 2024''"
proof -
  have "localDate tz 1704412800000 = (2024, 1, 5)"
    using localDate_east [OF assms, of 19727] by (simp add: msPerDay_def civil_19727)
  then show "ptBR_MMMM_yyyy tz 1704412800000 = ''janeiro 2024''"
    unfolding ptBR_MMMM_yyyy_def by (simp only: label_jan)
  have "localDate tz 1705708800000 = (2024, 1, 20)"
    using localDate_east [OF assms, of 19742] by (simp add: msPerDay_def civil_19742)
  then show "ptBR_MMMM_yyyy tz 1705708800000 = ''janeiro 2024''"
    unfolding ptBR_MMMM_yyyy_def by (simp only: label_jan)
  have "localDate tz 1706745600000 = (2024, 2, 1)"
    using localDate_east [OF assms, of 19754] by (simp add: msPerDay_def civil_19754)
  then show "ptBR_MMMM_yyyy tz 1706745600000 = ''fevereiro 2024''"
    unfolding ptBR_MMMM_yyyy_def by (simp only: label_feb)
qed

lemma west_labels:
  assumes "- 1440 \<le> tz" "tz < 0"
  shows "ptBR_MMMM_yyyy tz 1704412800000 = ''janeiro 2024''"
    and "ptBR_MMMM_yyyy tz 1705708800000 = ''janeiro 2024''"
    and "ptBR_MMMM_yyyy tz 1706745600000 = ''janeiro 2024''"
proof -
  have "localDate tz 1704412800000 = (2024, 1, 4)"
    using localDate_west [OF assms, of 19727] by (simp add: msPerDay_def civil_19726)
  then show "ptBR_MMMM_yyyy tz 1704412800000 = ''janeiro 2024''"
    unfolding ptBR_MMMM_yyyy_def by (simp only: label_jan)
  have "localDate tz 1705708800000 = (2024, 1, 19)"
    using localDate_west [OF assms, of 19742] by (simp add: msPerDay_def civil_19741)
  then show "ptBR_MMMM_yyyy tz 1705708800000 = ''janeiro 2024''"
    unfolding ptBR_MMMM_yyyy_def by (simp only: label_jan)
  have "localDate tz 1706745600000 = (2024, 1, 31)"
    using localDate_west [OF assms, of 19754] by (simp add: msPerDay_def civil_19753)
  then show "ptBR_MMMM_yyyy tz 1706745600000 = ''janeiro 2024''"
    unfolding ptBR_MMMM_yyyy_def by (simp only: label_jan)
qed

lemma three_west:
  assumes "- 1440 \<le> tz" "tz < 0"
    and "date a = ''2024-01-05''" "date b = ''2024-01-20''" "date c = ''2024-02-01''"
  shows "groupTransactionsByMonth (isoHost tz) [a, b, c] =
           Inr [(''janeiro 2024'', [c, b, a])]"
  using assms(3-5)
  by (simp add: groupTransactionsByMonth_def pushToGroup_def sortGroups_def Array_sort_def
      compareDates_def sortCompare_def format_MMMM_yyyy_def isoHost_def
      parse_jan05 parse_jan20 parse_feb01 west_labels [OF assms(1,2)])


lemma sample_date [simp]: "date (sampleTransaction i d) = d"
  by (simp add: sampleTransaction_def)

section \<open>Properties of the transaction grouper\<close>

text \<open>
  C1. The claim: three transactions dated 2024-01-05, 2024-01-20 and 2024-02-01, in that
  order, are grouped into exactly two groups, the January 2024 label first and the February
  2024 label second, the January group holding the transaction of 2024-01-20 before the
  one of 2024-01-05. The code misses this for every viewer west of UTC: a date-only string
  is read as midnight UTC and the label is rendered in local time, so three hours west
  (the offset of Brasilia) the transaction of 2024-02-01 falls on 31 January, 21:00, and
  \<open>groupTransactionsByMonth\<close> returns the single group \<open>janeiro 2024\<close> with all three
  transactions.
\<close>

theorem groupTransactionsByMonth_three_west_of_UTC:
  "groupTransactionsByMonth (isoHost (- 180))
     [sampleTransaction 1 ''2024-01-05'', sampleTransaction 2 ''2024-01-20'',
      sampleTransaction 3 ''2024-02-01''] =
   Inr [(''janeiro 2024'',
         [sampleTransaction 3 ''2024-02-01'', sampleTransaction 2 ''2024-01-20'',
          sampleTransaction 1 ''2024-01-05''])] \<and>
   groupTransactionsByMonth (isoHost (- 180))
     [sampleTransaction 1 ''2024-01-05'', sampleTransaction 2 ''2024-01-20'',
      sampleTransaction 3 ''2024-02-01''] \<noteq>
   Inr [(''janeiro 2024'', [sampleTransaction 2 ''2024-01-20'', sampleTransaction 1 ''2024-01-05'']),
        (''fevereiro 2024'', [sampleTransaction 3 ''2024-02-01''])]"
proof -
  have "groupTransactionsByMonth (isoHost (- 180))
     [sampleTransaction 1 ''2024-01-05'', sampleTransaction 2 ''2024-01-20'',
      sampleTransaction 3 ''2024-02-01''] =
   Inr [(''janeiro 2024'',
         [sampleTransaction 3 ''2024-02-01'', sampleTransaction 2 ''2024-01-20'',
          sampleTransaction 1 ''2024-01-05''])]"
    by (rule three_west) simp_all
  then show ?thesis by simp
qed

text \<open>
  The same function gives the grouping of the claim for a viewer at or east of UTC, and,
  three hours west of UTC, for the same three days written as local date-times: only the
  UTC reading of the date-only form moves the transaction of 1 February into January.
\<close>

lemma three_east:
  assumes "0 \<le> tz" "tz < 1440"
    and "date a = ''2024-01-05''" "date b = ''2024-01-20''" "date c = ''2024-02-01''"
  shows "groupTransactionsByMonth (isoHost tz) [a, b, c] =
           Inr [(''janeiro 2024'', [b, a]), (''fevereiro 2024'', [c])]"
  using assms(3-5)
  by (simp add: groupTransactionsByMonth_def pushToGroup_def sortGroups_def Array_sort_def
      compareDates_def sortCompare_def format_MMMM_yyyy_def isoHost_def
      parse_jan05 parse_jan20 parse_feb01 east_labels [OF assms(1,2)])

lemma three_local_datetimes:
  "groupTransactionsByMonth (isoHost (- 180))
     [sampleTransaction 1 ''2024-01-05T00:00:00'', sampleTransaction 2 ''2024-01-20T00:00:00'',
      sampleTransaction 3 ''2024-02-01T00:00:00''] =
   Inr [(''janeiro 2024'',
         [sampleTransaction 2 ''2024-01-20T00:00:00'', sampleTransaction 1 ''2024-01-05T00:00:00'']),
        (''fevereiro 2024'', [sampleTransaction 3 ''2024-02-01T00:00:00''])]"
proof -
  have p: "parseISO (- 180) ''2024-01-05T00:00:00'' = Some 1704423600000"
    "parseISO (- 180) ''2024-01-20T00:00:00'' = Some 1705719600000"
    "parseISO (- 180) ''2024-02-01T00:00:00'' = Some 1706756400000"
    by code_simp+
  have l: "ptBR_MMMM_yyyy (- 180) 1704423600000 = ''janeiro 2024''"
    "ptBR_MMMM_yyyy (- 180) 1705719600000 = ''janeiro 2024''"
    "ptBR_MMMM_yyyy (- 180) 1706756400000 = ''fevereiro 2024''"
    by code_simp+
  show ?thesis
    by (simp add: groupTransactionsByMonth_def pushToGroup_def sortGroups_def Array_sort_def
        compareDates_def sortCompare_def format_MMMM_yyyy_def isoHost_def p l)
qed

text \<open>
  C8. \<open>groupTransactionsByMonth\<close> applied to the empty list of transactions returns the
  empty mapping, whatever the host.
\<close>

theorem groupTransactionsByMonth_empty: "groupTransactionsByMonth h [] = Inr []"
  by (simp add: groupTransactionsByMonth_def sortGroups_def)

text \<open>
  C9. For every list of transactions whose dates the host's \<open>Date\<close> constructor accepts,
  \<open>groupTransactionsByMonth\<close> returns a mapping whose groups, concatenated, are a
  permutation of the input; the month labels are pairwise distinct and every input
  transaction is in exactly one group.
\<close>

theorem groupTransactionsByMonth_permutation:
  assumes valid: "\<forall>t \<in> set ts. newDate h (date t) \<noteq> None"
  shows "\<exists>grouped. groupTransactionsByMonth h ts = Inr grouped \<and>
           mset (concat (map snd grouped)) = mset ts \<and>
           distinct (map fst grouped) \<and>
           (\<forall>t \<in> set ts. \<exists>!i. i < length grouped \<and> t \<in> set (snd (grouped ! i)))"
proof -
  from groupLoop_returns [OF valid] obtain g where g: "groupLoop h ts [] = Inr g"
    by blast
  have own0: "inOwnGroup h []" by (simp add: inOwnGroup_def)
  from groupLoop_invariants [OF g] own0
  have inv: "mset (concat (map snd g)) = mset ts" "distinct (map fst g)" "inOwnGroup h g"
    by simp_all
  let ?r = "sortGroups h g"
  have r: "groupTransactionsByMonth h ts = Inr ?r"
    by (simp add: groupTransactionsByMonth_def g)
  have m: "mset (concat (map snd ?r)) = mset ts"
    by (simp add: sortGroups_mset inv)
  have d: "distinct (map fst ?r)"
    by (simp add: sortGroups_keys inv)
  have o: "inOwnGroup h ?r"
    by (simp add: sortGroups_inOwnGroup inv)
  have "\<forall>t \<in> set ts. \<exists>!i. i < length ?r \<and> t \<in> set (snd (?r ! i))"
    using exactly_one_group [OF m d o] by blast
  with r m d show ?thesis by blast
qed



theorem groupTransactionsByMonth_permutation_witness:
  "newDate (isoHost 0) (date (sampleTransaction 1 ''2024-01-05'')) \<noteq> None \<and>
   newDate (isoHost 0) (date (sampleTransaction 2 ''2024-02-01'')) \<noteq> None \<and>
   (\<exists>grouped.
      groupTransactionsByMonth (isoHost 0)
        [sampleTransaction 1 ''2024-01-05'', sampleTransaction 2 ''2024-02-01''] = Inr grouped \<and>
      mset (concat (map snd grouped)) =
        mset [sampleTransaction 1 ''2024-01-05'', sampleTransaction 2 ''2024-02-01''] \<and>
      distinct (map fst grouped) \<and>
      (\<forall>t \<in> set [sampleTransaction 1 ''2024-01-05'', sampleTransaction 2 ''2024-02-01''].
         \<exists>!i. i < length grouped \<and> t \<in> set (snd (grouped ! i))))"
proof -
  have valid: "\<forall>t \<in> set [sampleTransaction 1 ''2024-01-05'', sampleTransaction 2 ''2024-02-01''].
      newDate (isoHost 0) (date t) \<noteq> None"
    by (simp add: isoHost_def parse_jan05 parse_feb01)
  from groupTransactionsByMonth_permutation [OF valid] valid show ?thesis
    by simp
qed

text \<open>
  C7. For every transaction whose \<open>account_id\<close> is the id of no account in the accounts
  list, \<open>getAccountName\<close> returns the label \<open>Conta desconhecida\<close>; the function is total
  and raises nothing.
\<close>

theorem getAccountName_unknown:
  "account_id t \<notin> set (map id_acc accs) \<Longrightarrow>
   getAccountName accs (account_id t) = ''Conta desconhecida''"
proof -
  assume "account_id t \<notin> set (map id_acc accs)"
  then have "List.find (\<lambda>acc. id_acc acc = account_id t) accs = None"
    by (induction accs) auto
  then show ?thesis by (simp add: getAccountName_def)
qed

theorem getAccountName_unknown_witness:
  "account_id (sampleTransaction 7 ''2024-01-05'') \<notin> set (map id_acc [\<lparr>id_acc = 2, name = ''Banco'', balance = 0\<rparr>]) \<and>
   getAccountName [\<lparr>id_acc = 2, name = ''Banco'', balance = 0\<rparr>]
     (account_id (sampleTransaction 7 ''2024-01-05'')) = ''Conta desconhecida''"
proof -
  have h: "account_id (sampleTransaction 7 ''2024-01-05'') \<notin>
      set (map id_acc [\<lparr>id_acc = 2, name = ''Banco'', balance = 0\<rparr>])"
    by (simp add: sampleTransaction_def)
  from getAccountName_unknown [OF h] h show ?thesis by simp
qed

section \<open>Properties of the balance chart\<close>




section \<open>Properties of the dashboard\<close>

text \<open>
  C10. For every dashboard state and every partial update \<open>newFilters\<close>, after
  \<open>handleFiltersChange\<close> every field named in \<open>newFilters\<close> has its new value and every
  other field of the filter state has its previous value.
\<close>

theorem handleFiltersChange_frame:
  "(\<forall>k \<in> dom newFilters. filters (handleFiltersChange st newFilters) k = newFilters k) \<and>
   (\<forall>k. k \<notin> dom newFilters \<longrightarrow> filters (handleFiltersChange st newFilters) k = filters st k)"
  by (auto simp: handleFiltersChange_def map_add_def split: option.splits)

theorem handleFiltersChange_frame_witness:
  "filters (handleFiltersChange sampleDashboard [''month'' \<mapsto> JNum 4, ''category'' \<mapsto> JStr ''Casa'']) ''month'' = Some (JNum 4) \<and>
   filters (handleFiltersChange sampleDashboard [''month'' \<mapsto> JNum 4, ''category'' \<mapsto> JStr ''Casa'']) ''category'' = Some (JStr ''Casa'') \<and>
   filters (handleFiltersChange sampleDashboard [''month'' \<mapsto> JNum 4, ''category'' \<mapsto> JStr ''Casa'']) ''year'' = Some (JNum 2024) \<and>
   filters (handleFiltersChange sampleDashboard [''month'' \<mapsto> JNum 4, ''category'' \<mapsto> JStr ''Casa'']) ''accountId'' = Some (JStr [])"
proof -
  let ?n = "[''month'' \<mapsto> JNum 4, ''category'' \<mapsto> JStr ''Casa'']"
  note f = handleFiltersChange_frame [of ?n sampleDashboard]
  have inn: "''month'' \<in> dom ?n" "''category'' \<in> dom ?n" by simp_all
  have out: "''year'' \<notin> dom ?n" "''accountId'' \<notin> dom ?n" by simp_all
  from f inn have "filters (handleFiltersChange sampleDashboard ?n) ''month'' = ?n ''month''"
    "filters (handleFiltersChange sampleDashboard ?n) ''category'' = ?n ''category''"
    by blast+
  moreover from f out have "filters (handleFiltersChange sampleDashboard ?n) ''year'' = filters sampleDashboard ''year''"
    "filters (handleFiltersChange sampleDashboard ?n) ''accountId'' = filters sampleDashboard ''accountId''"
    by blast+
  ultimately show ?thesis by (simp add: sampleDashboard_def)
qed

lemma unsetProp_falsy: "unsetProp fs k \<Longrightarrow> \<not> truthy (getProp fs k)"
  by (auto simp: unsetProp_def getProp_def)

lemma toString_3: "toString (JNum 3) = ''3''"
  by code_simp

lemma toString_2024: "toString (JNum 2024) = ''2024''"
  by code_simp

lemma query_month_year:
  "URLSearchParams_toString [(''month'', ''3''), (''year'', ''2024'')] = ''month=3&year=2024''"
  by code_simp

lemma transactionParams_month_year:
  assumes "fs ''month'' = Some (JNum 3)" "fs ''year'' = Some (JNum 2024)"
    and "unsetProp fs ''transactionType''" "unsetProp fs ''category''" "unsetProp fs ''accountId''"
  shows "transactionParams fs = [(''month'', ''3''), (''year'', ''2024'')]"
proof -
  have m: "getProp fs ''month'' = JNum 3" and y: "getProp fs ''year'' = JNum 2024"
    using assms(1,2) by (simp_all add: getProp_def)
  show ?thesis
    using assms(3-5) [THEN unsetProp_falsy]
    by (simp add: transactionParams_def appendParam_def m y toString_3 toString_2024
        del: toString.simps)
qed

text \<open>
  C5. When the filter state has month 3 and year 2024 and the fields transactionType,
  category and accountId are unset or empty, the parameters built by \<open>loadTransactions\<close>
  are exactly month=3 and year=2024 in that order, the query string is
  \<open>month=3&year=2024\<close>, and the request goes to the transactions endpoint with that
  query.
\<close>

theorem loadTransactions_query:
  assumes "filters st ''month'' = Some (JNum 3)" "filters st ''year'' = Some (JNum 2024)"
    and "unsetProp (filters st) ''transactionType''" "unsetProp (filters st) ''category''"
    and "unsetProp (filters st) ''accountId''"
  shows "transactionParams (filters st) = [(''month'', ''3''), (''year'', ''2024'')] \<and>
         URLSearchParams_toString (transactionParams (filters st)) = ''month=3&year=2024'' \<and>
         loadTransactions fetch st =
           loadTransactions
             (\<lambda>url. fetch ''http://localhost:8000/transactions/?month=3&year=2024'') st"
proof -
  have p: "transactionParams (filters st) = [(''month'', ''3''), (''year'', ''2024'')]"
    using assms by (rule transactionParams_month_year)
  have u: "transactionsUrl (filters st) = ''http://localhost:8000/transactions/?month=3&year=2024''"
    by (simp add: transactionsUrl_def p query_month_year)
  have "loadTransactions fetch st =
           loadTransactions
             (\<lambda>url. fetch ''http://localhost:8000/transactions/?month=3&year=2024'') st"
    by (simp add: loadTransactions_def u Let_def)
  with p show ?thesis by (simp add: query_month_year)
qed

theorem loadTransactions_query_witness:
  "filters sampleDashboard ''month'' = Some (JNum 3) \<and>
   filters sampleDashboard ''year'' = Some (JNum 2024) \<and>
   unsetProp (filters sampleDashboard) ''transactionType'' \<and>
   unsetProp (filters sampleDashboard) ''category'' \<and>
   unsetProp (filters sampleDashboard) ''accountId'' \<and>
   transactionParams (filters sampleDashboard) = [(''month'', ''3''), (''year'', ''2024'')] \<and>
   URLSearchParams_toString (transactionParams (filters sampleDashboard)) = ''month=3&year=2024''"
proof -
  have h: "filters sampleDashboard ''month'' = Some (JNum 3)"
    "filters sampleDashboard ''year'' = Some (JNum 2024)"
    "unsetProp (filters sampleDashboard) ''transactionType''"
    "unsetProp (filters sampleDashboard) ''category''"
    "unsetProp (filters sampleDashboard) ''accountId''"
    by (simp_all add: sampleDashboard_def unsetProp_def)
  from loadTransactions_query [OF h] h show ?thesis by blast
qed

text \<open>
  C4, with the transactions kept. When the fetch fails, the error is caught and logged, the accounts
  shown (\<open>loadAccounts\<close>) and the transactions shown (\<open>loadTransactions\<close>) keep their
  previous values, and the balance history (\<open>loadBalanceHistory\<close>, with an account
  selected) is reset to the empty list.
\<close>

theorem fetch_failure_policy:
  assumes "fetchAccounts ''http://localhost:8000/accounts/'' = Rejected e1"
    and "fetchTransactions (transactionsUrl (filters st)) = Rejected e2"
    and "truthy (selectedAccount ch)"
    and "fetchHistory (''http://localhost:8000/accounts/'' @ toString (selectedAccount ch) @
           ''/balance-history?days=30'') = Rejected e3"
  shows "accounts (loadAccounts fetchAccounts st) = accounts st \<and>
         console (loadAccounts fetchAccounts st) =
           console st @ [(''Erro ao carregar contas:'', e1)] \<and>
         transactions (loadTransactions fetchTransactions st) = transactions st \<and>
         console (loadTransactions fetchTransactions st) =
           console st @ [(''Erro ao carregar transa'' @ [CHR 0xC3, CHR 0xA7, CHR 0xC3, CHR 0xB5] @
                          ''es:'', e2)] \<and>
         balanceHistory (loadBalanceHistory fetchHistory ch) = [] \<and>
         console (loadBalanceHistory fetchHistory ch) =
           console ch @ [(''Erro ao carregar hist'' @ [CHR 0xC3, CHR 0xB3] @ ''rico de saldo:'', e3)]"
  using assms
  by (simp add: loadAccounts_def loadTransactions_def loadBalanceHistory_def Let_def
      del: toString.simps)

lemma sample_url: "transactionsUrl (filters sampleDashboard) =
    ''http://localhost:8000/transactions/?month=3&year=2024''"
proof -
  have "transactionParams (filters sampleDashboard) = [(''month'', ''3''), (''year'', ''2024'')]"
    by (rule transactionParams_month_year) (simp_all add: sampleDashboard_def unsetProp_def)
  then show ?thesis by (simp add: transactionsUrl_def query_month_year)
qed

theorem fetch_failure_policy_witness:
  "(\<lambda>url. Rejected ''Failed to fetch'' :: account list fetched) ''http://localhost:8000/accounts/'' =
     Rejected ''Failed to fetch'' \<and>
   truthy (selectedAccount sampleChart) \<and>
   accounts (loadAccounts (\<lambda>url. Rejected ''Failed to fetch'') sampleDashboard) =
     [\<lparr>id_acc = 1, name = ''Carteira'', balance = 250\<rparr>] \<and>
   transactions (loadTransactions (\<lambda>url. Rejected ''Failed to fetch'') sampleDashboard) =
     [sampleTransaction 1 ''2024-01-05''] \<and>
   balanceHistory (loadBalanceHistory (\<lambda>url. Rejected ''Failed to fetch'') sampleChart) = []"
proof -
  have t: "truthy (selectedAccount sampleChart)" by (simp add: sampleChart_def)
  have "accounts (loadAccounts (\<lambda>url. Rejected ''Failed to fetch'') sampleDashboard) =
          accounts sampleDashboard \<and>
        transactions (loadTransactions (\<lambda>url. Rejected ''Failed to fetch'') sampleDashboard) =
          transactions sampleDashboard \<and>
        balanceHistory (loadBalanceHistory (\<lambda>url. Rejected ''Failed to fetch'') sampleChart) = []"
    using fetch_failure_policy [of "\<lambda>url. Rejected ''Failed to fetch''" "''Failed to fetch''"
        "\<lambda>url. Rejected ''Failed to fetch''" sampleDashboard "''Failed to fetch''" sampleChart
        "\<lambda>url. Rejected ''Failed to fetch''" "''Failed to fetch''", OF refl refl t refl]
    by blast
  with t show ?thesis by (simp add: sampleDashboard_def)
qed

text \<open>
  C4 as stated says that a failed fetch resets the transactions to the empty list. The
  \<open>catch\<close> block of \<open>loadTransactions\<close> only logs: a dashboard that shows one transaction
  still shows it after the failure.
\<close>

theorem loadTransactions_failure_counterexample:
  "transactions (loadTransactions (\<lambda>url. Rejected ''Failed to fetch'') sampleDashboard) =
     [sampleTransaction 1 ''2024-01-05''] \<and>
   transactions (loadTransactions (\<lambda>url. Rejected ''Failed to fetch'') sampleDashboard) \<noteq> []"
  by (simp add: loadTransactions_def Let_def sampleDashboard_def)

end
